theory Spec2Isabelle
  imports Complex_Main
begin

section \<open>CTC beam scorers (tensorflow/core/util/ctc/ctc_beam_scorer.h)\<close>

text \<open>
  A shallow embedding of the two concrete beam scorers of the header,
  \<^verbatim>\<open>KenLMBeamScorer\<close> and \<^verbatim>\<open>PrefixScorer\<close>, and of the
  \<^verbatim>\<open>LabelToCharacterTranslator\<close> they share.

  Conventions of the embedding:
  \<^item> a \<^verbatim>\<open>float\<close> is a \<open>real\<close>: the properties below are about which values are
    added, subtracted and stored, not about rounding or non-finite values;
  \<^item> an \<^verbatim>\<open>int\<close> label is an \<open>int\<close>;
  \<^item> a nullable \<^verbatim>\<open>TrieNode<27>*\<close> is a \<open>TrieNode option\<close>, \<open>None\<close> being
    \<^verbatim>\<open>nullptr\<close>;
  \<^item> a method that writes through a state pointer takes the state and returns the
    written state; \<^verbatim>\<open>from_state\<close> and \<^verbatim>\<open>to_state\<close> are distinct objects;
  \<^item> a method that calls the language model returns, next to the state, the list of
    \<^verbatim>\<open>FullScore\<close> calls it made, in order.
\<close>

subsection \<open>The trie and the beam states (ctc_beam_entry.h)\<close>

text \<open>
  Modelled from the spec: \<^verbatim>\<open>TrieNode<27>\<close> is declared in ctc_beam_entry.h. The trie
  offers child lookup by symbol, giving a node or nothing, and a frequency count at
  every node, the root included. A node is its count and its children by symbol.
\<close>

datatype TrieNode = TrieNode (GetFrequency: int) (children: "(int \<times> TrieNode) list")

definition GetChildAt :: "TrieNode \<Rightarrow> int \<Rightarrow> TrieNode option" where
  "GetChildAt n label = map_of (children n) label"

text \<open>
  Modelled from the spec: \<^verbatim>\<open>KenLMBeamState\<close> is declared in ctc_beam_entry.h. Its
  fields are the six that \<^verbatim>\<open>CopyState\<close> copies. The type \<open>'s\<close> is the language
  model's \<^verbatim>\<open>Model::State\<close>.
\<close>

record 's KenLMBeamState =
  language_model_score :: real
  score :: real
  delta_score :: real
  incomplete_word :: string
  incomplete_word_trie_node :: "TrieNode option"
  model_state :: 's

text \<open>
  Modelled from the spec: \<^verbatim>\<open>PrefixBeamState\<close> is declared in ctc_beam_entry.h. Its
  fields are the two that \<^verbatim>\<open>CopyState\<close> copies.
\<close>

record PrefixBeamState =
  prob :: real
  node :: "TrieNode option"

subsection \<open>The language model (lm/model.hh)\<close>

text \<open>
  The n-gram model is an external library, so it is a parameter: its start state,
  the scoring operation \<^verbatim>\<open>FullScore(in_state, word, out_state).prob\<close> as a function
  giving the log-probability and the out state, the vocabulary lookup
  \<^verbatim>\<open>GetVocabulary().Index\<close> and the token \<^verbatim>\<open>GetVocabulary().EndSentence()\<close>.
  The type \<open>'w\<close> is \<^verbatim>\<open>lm::WordIndex\<close>.
\<close>

record ('s, 'w) Model =
  BeginSentenceState :: 's
  FullScore :: "'s \<Rightarrow> 'w \<Rightarrow> real \<times> 's"
  Index :: "string \<Rightarrow> 'w"
  EndSentence :: 'w

subsection \<open>LabelToCharacterTranslator\<close>

definition IsBlankLabel :: "int \<Rightarrow> bool" where
  "IsBlankLabel label = (label = 28)"

definition IsSpaceLabel :: "int \<Rightarrow> bool" where
  "IsSpaceLabel label = (label = 27)"

text \<open>\<^verbatim>\<open>label + 'a'\<close> is converted to \<^verbatim>\<open>char\<close>, which keeps the low eight bits.\<close>

definition GetCharacterFromLabel :: "int \<Rightarrow> char" where
  "GetCharacterFromLabel label =
     (if label = 26 then CHR 0x27
      else if label = 27 then CHR '' ''
      else char_of (label + of_char CHR ''a''))"

subsection \<open>BaseBeamScorer\<close>

text \<open>
  The base class's two score getters, which the concrete scorers override. With no
  expansion logic the expansion score is zero, and the getter returns
  \<^verbatim>\<open>previous_score\<close>.
\<close>

definition BaseBeamScorer_GetStateExpansionScore :: "'state \<Rightarrow> real \<Rightarrow> real" where
  "BaseBeamScorer_GetStateExpansionScore state previous_score = previous_score"

definition BaseBeamScorer_GetStateEndExpansionScore :: "'state \<Rightarrow> real" where
  "BaseBeamScorer_GetStateEndExpansionScore state = 0"

subsection \<open>KenLMBeamScorer\<close>

text \<open>
  The scorer owns the trie root and the model. The constructor reads both; here they
  are the fields of a loaded scorer, and the root is a node.
\<close>

record ('s, 'w) KenLMBeamScorer =
  trieRoot :: TrieNode
  model :: "('s, 'w) Model"

definition KenLMBeamScorer_InitializeState ::
  "('s, 'w) KenLMBeamScorer \<Rightarrow> 's KenLMBeamState \<Rightarrow> 's KenLMBeamState" where
  "KenLMBeamScorer_InitializeState sc root_state =
     root_state\<lparr>language_model_score := 0,
          score := 0,
          delta_score := 0,
          incomplete_word := [],
          incomplete_word_trie_node := Some (trieRoot sc),
          model_state := BeginSentenceState (model sc)\<rparr>"

definition UpdateWithLMScore :: "'s KenLMBeamState \<Rightarrow> real \<Rightarrow> 's KenLMBeamState" where
  "UpdateWithLMScore state lm_score =
     (let previous_score = score state
      in state\<lparr>language_model_score := lm_score,
               score := lm_score,
               delta_score := lm_score - previous_score\<rparr>)"

definition ResetIncompleteWord ::
  "('s, 'w) KenLMBeamScorer \<Rightarrow> 's KenLMBeamState \<Rightarrow> 's KenLMBeamState" where
  "ResetIncompleteWord sc state =
     state\<lparr>incomplete_word := [],
           incomplete_word_trie_node := Some (trieRoot sc)\<rparr>"

text \<open>
  \<^verbatim>\<open>ScoreIncompleteWord\<close> returns the log-probability, the out state written
  through \<^verbatim>\<open>out\<close>, and the one \<^verbatim>\<open>FullScore\<close> call it makes.
\<close>

definition ScoreIncompleteWord ::
  "('s, 'w) KenLMBeamScorer \<Rightarrow> 's \<Rightarrow> string \<Rightarrow> (real \<times> 's) \<times> ('s \<times> 'w) list" where
  "ScoreIncompleteWord sc model_state_in word =
     (let vocab = Index (model sc) word
      in (FullScore (model sc) model_state_in vocab, [(model_state_in, vocab)]))"

definition KenLMBeamScorer_CopyState ::
  "'s KenLMBeamState \<Rightarrow> 's KenLMBeamState \<Rightarrow> 's KenLMBeamState" where
  "KenLMBeamScorer_CopyState from to =
     to\<lparr>language_model_score := language_model_score from,
        score := score from,
        delta_score := delta_score from,
        incomplete_word := incomplete_word from,
        incomplete_word_trie_node := incomplete_word_trie_node from,
        model_state := model_state from\<rparr>"

text \<open>
  \<^verbatim>\<open>ExpandState\<close>. In the word-separator branch the source ends with the call
  \<^verbatim>\<open>ResetIncompleteWord()\<close>, which names no state: the only declaration is
  \<^verbatim>\<open>ResetIncompleteWord(KenLMBeamState *state)\<close>, and nothing is passed for it
  to write, so \<^verbatim>\<open>to_state\<close> is returned as \<^verbatim>\<open>UpdateWithLMScore\<close> left it.
  (\<^verbatim>\<open>ExpandStateEnd\<close> passes its state.)
\<close>

definition KenLMBeamScorer_ExpandState ::
  "('s, 'w) KenLMBeamScorer \<Rightarrow> 's KenLMBeamState \<Rightarrow> int \<Rightarrow> 's KenLMBeamState \<Rightarrow> int
     \<Rightarrow> 's KenLMBeamState \<times> ('s \<times> 'w) list" where
  "KenLMBeamScorer_ExpandState sc from_state from_label to_state0 to_label =
     (let to_state = KenLMBeamScorer_CopyState from_state to_state0 in
      if from_label = to_label \<or> IsBlankLabel to_label then
        (to_state\<lparr>delta_score := 0\<rparr>, [])
      else if \<not> IsSpaceLabel to_label then
        (let to_state = to_state\<lparr>incomplete_word :=
                 incomplete_word to_state @ [GetCharacterFromLabel to_label]\<rparr>;
             (to_state, prefix_prob) =
               (case incomplete_word_trie_node from_state of
                  None \<Rightarrow> (to_state, - 10)
                | Some parent \<Rightarrow>
                    (let trie_node = GetChildAt parent to_label;
                         to_state = to_state\<lparr>incomplete_word_trie_node := trie_node\<rparr>
                     in case trie_node of
                          None \<Rightarrow> (to_state, - 10)
                        | Some child \<Rightarrow>
                            (to_state,
                             log 10 (real_of_int (GetFrequency child) /
                                     real_of_int (GetFrequency (trieRoot sc))))));
             to_state = to_state\<lparr>score := prefix_prob + language_model_score to_state\<rparr>;
             to_state = to_state\<lparr>delta_score := score to_state - score from_state\<rparr>
         in (to_state, []))
      else
        (let ((probability, out), calls) =
               ScoreIncompleteWord sc (model_state from_state) (incomplete_word to_state);
             to_state = to_state\<lparr>model_state := out\<rparr>;
             to_state = UpdateWithLMScore to_state probability
         in (to_state, calls)))"

definition KenLMBeamScorer_ExpandStateEnd ::
  "('s, 'w) KenLMBeamScorer \<Rightarrow> 's KenLMBeamState
     \<Rightarrow> 's KenLMBeamState \<times> ('s \<times> 'w) list" where
  "KenLMBeamScorer_ExpandStateEnd sc state0 =
     (let (state, calls) =
            (if length (incomplete_word state0) > 0 then
               (let ((discarded, out), calls) =
                      ScoreIncompleteWord sc (model_state state0) (incomplete_word state0);
                    state = ResetIncompleteWord sc state0;
                    state = state\<lparr>model_state := out\<rparr>
                in (state, calls))
             else (state0, []));
          (full_score_prob, out) =
            FullScore (model sc) (model_state state) (EndSentence (model sc))
      in (UpdateWithLMScore state full_score_prob,
          calls @ [(model_state state, EndSentence (model sc))]))"

definition KenLMBeamScorer_GetStateExpansionScore ::
  "'s KenLMBeamState \<Rightarrow> real \<Rightarrow> real" where
  "KenLMBeamScorer_GetStateExpansionScore state previous_score =
     delta_score state + previous_score"

definition KenLMBeamScorer_GetStateEndExpansionScore :: "'s KenLMBeamState \<Rightarrow> real" where
  "KenLMBeamScorer_GetStateEndExpansionScore state = delta_score state"

subsection \<open>PrefixScorer\<close>

text \<open>The prefix scorer owns only the trie root, so the root stands for the scorer.\<close>

definition PrefixScorer_InitializeState ::
  "TrieNode \<Rightarrow> PrefixBeamState \<Rightarrow> PrefixBeamState" where
  "PrefixScorer_InitializeState root_node root_state =
     root_state\<lparr>prob := 0, node := Some root_node\<rparr>"

definition PrefixScorer_CopyState :: "PrefixBeamState \<Rightarrow> PrefixBeamState \<Rightarrow> PrefixBeamState" where
  "PrefixScorer_CopyState from to = to\<lparr>prob := prob from, node := node from\<rparr>"

definition PrefixScorer_ExpandState ::
  "TrieNode \<Rightarrow> PrefixBeamState \<Rightarrow> int \<Rightarrow> PrefixBeamState \<Rightarrow> int \<Rightarrow> PrefixBeamState" where
  "PrefixScorer_ExpandState root_node from_state from_label to_state0 to_label =
     (let to_state = PrefixScorer_CopyState from_state to_state0 in
      if from_label = to_label \<or> IsBlankLabel to_label then to_state
      else if IsSpaceLabel to_label then to_state\<lparr>node := Some root_node\<rparr>
      else case node to_state of
             None \<Rightarrow> to_state
           | Some n \<Rightarrow>
               (let to_state = to_state\<lparr>node := GetChildAt n to_label\<rparr>
                in if node to_state = None then to_state\<lparr>prob := prob to_state - 1\<rparr>
                   else to_state))"

definition PrefixScorer_ExpandStateEnd :: "PrefixBeamState \<Rightarrow> PrefixBeamState" where
  "PrefixScorer_ExpandStateEnd state = state"

definition PrefixScorer_GetStateExpansionScore :: "PrefixBeamState \<Rightarrow> real \<Rightarrow> real" where
  "PrefixScorer_GetStateExpansionScore state previous_score = prob state"

definition PrefixScorer_GetStateEndExpansionScore :: "PrefixBeamState \<Rightarrow> real" where
  "PrefixScorer_GetStateEndExpansionScore state = prob state"

subsection \<open>A beam's chain of expansions\<close>

text \<open>
  The decoder expands a beam one label at a time: the child's state is computed from
  the parent's state, the parent's label and the child's label. \<open>ExpandPath\<close> runs
  \<^verbatim>\<open>ExpandState\<close> along a list of labels, each label being the next step's
  \<^verbatim>\<open>from_label\<close>. \<open>fresh\<close> is what a newly made child state holds before
  \<^verbatim>\<open>ExpandState\<close> writes it.
\<close>

fun KenLMBeamScorer_ExpandPath ::
  "('s, 'w) KenLMBeamScorer \<Rightarrow> 's KenLMBeamState \<Rightarrow> 's KenLMBeamState \<Rightarrow> int \<Rightarrow> int list
     \<Rightarrow> 's KenLMBeamState" where
  "KenLMBeamScorer_ExpandPath sc fresh state label [] = state"
| "KenLMBeamScorer_ExpandPath sc fresh state label (x # xs) =
     KenLMBeamScorer_ExpandPath sc fresh
       (fst (KenLMBeamScorer_ExpandState sc state label fresh x)) x xs"

fun PrefixScorer_ExpandPath ::
  "TrieNode \<Rightarrow> PrefixBeamState \<Rightarrow> PrefixBeamState \<Rightarrow> int \<Rightarrow> int list \<Rightarrow> PrefixBeamState" where
  "PrefixScorer_ExpandPath root_node fresh state label [] = state"
| "PrefixScorer_ExpandPath root_node fresh state label (x # xs) =
     PrefixScorer_ExpandPath root_node fresh
       (PrefixScorer_ExpandState root_node state label fresh x) x xs"

text \<open>
  The state of a beam whose current word has left the trie: no trie position, and a
  score that is the floor \<open>- 10\<close> on top of the last language-model score.
\<close>

definition out_of_vocabulary :: "'s KenLMBeamState \<Rightarrow> bool" where
  "out_of_vocabulary state =
     (incomplete_word_trie_node state = None \<and>
      score state = - 10 + language_model_score state)"

subsection \<open>A small scorer to run the code on\<close>

text \<open>
  A trie that holds the word "ht": root count 1000, "h" (label 7) count 5, "ht"
  (label 19 below it) count 3. A model whose state is the list of words seen, newest
  first, and which gives the end-of-sentence token \<open>- 1\<close> and every other word \<open>- 2\<close>.
  The root beam has the label \<open>- 1\<close>.
\<close>

definition example_trie :: TrieNode where
  "example_trie = TrieNode 1000 [(7, TrieNode 5 [(19, TrieNode 3 [])])]"

definition example_model :: "(string list, string) Model" where
  "example_model =
     \<lparr>BeginSentenceState = [''<s>''],
      FullScore = (\<lambda>st w. (if w = ''</s>'' then - 1 else - 2, w # st)),
      Index = (\<lambda>w. w),
      EndSentence = ''</s>''\<rparr>"

definition example_scorer :: "(string list, string) KenLMBeamScorer" where
  "example_scorer = \<lparr>trieRoot = example_trie, model = example_model\<rparr>"

definition blank_state :: "string list KenLMBeamState" where
  "blank_state =
     \<lparr>language_model_score = 0, score = 0, delta_score = 0, incomplete_word = [],
      incomplete_word_trie_node = None, model_state = []\<rparr>"

definition blank_prefix_state :: PrefixBeamState where
  "blank_prefix_state = \<lparr>prob = 0, node = None\<rparr>"

definition example_root_state :: "string list KenLMBeamState" where
  "example_root_state = KenLMBeamScorer_InitializeState example_scorer blank_state"

text \<open>The root beam expanded by the label 7, the letter h.\<close>

definition example_h_state :: "string list KenLMBeamState" where
  "example_h_state =
     fst (KenLMBeamScorer_ExpandState example_scorer example_root_state (- 1) blank_state 7)"

definition example_prefix_root_state :: PrefixBeamState where
  "example_prefix_root_state = PrefixScorer_InitializeState example_trie blank_prefix_state"

section \<open>Properties\<close>

subsection \<open>Unfolding and running the code\<close>

lemmas KenLM_defs =
  KenLMBeamScorer_ExpandState_def KenLMBeamScorer_ExpandStateEnd_def
  UpdateWithLMScore_def ScoreIncompleteWord_def ResetIncompleteWord_def

lemma KenLMBeamScorer_CopyState_all:
  "KenLMBeamScorer_CopyState from_state to_state = from_state"
  by (cases from_state; cases to_state) (simp add: KenLMBeamScorer_CopyState_def)

lemma PrefixScorer_CopyState_all:
  "PrefixScorer_CopyState from_state to_state = from_state"
  by (cases from_state; cases to_state) (simp add: PrefixScorer_CopyState_def)

lemmas run_defs =
  KenLM_defs KenLMBeamScorer_CopyState_all PrefixScorer_CopyState_all
  PrefixScorer_ExpandState_def KenLMBeamScorer_InitializeState_def
  PrefixScorer_InitializeState_def GetChildAt_def
  IsBlankLabel_def IsSpaceLabel_def GetCharacterFromLabel_def char_of_def
  example_scorer_def example_model_def example_trie_def blank_state_def
  blank_prefix_state_def example_root_state_def example_h_state_def
  example_prefix_root_state_def Let_def

text \<open>The three branches of \<^verbatim>\<open>KenLMBeamScorer::ExpandState\<close>, one equation each.\<close>

lemma KenLM_ExpandState_collapse:
  assumes "from_label = to_label \<or> IsBlankLabel to_label"
  shows "KenLMBeamScorer_ExpandState sc from_state from_label to_state to_label =
           (from_state\<lparr>delta_score := 0\<rparr>, [])"
  using assms by (simp add: KenLM_defs KenLMBeamScorer_CopyState_all)

lemma KenLM_ExpandState_character:
  assumes "from_label \<noteq> to_label" "\<not> IsBlankLabel to_label" "\<not> IsSpaceLabel to_label"
  shows "KenLMBeamScorer_ExpandState sc from_state from_label to_state to_label =
    (let lookup = (case incomplete_word_trie_node from_state of
                     None \<Rightarrow> None
                   | Some parent \<Rightarrow> GetChildAt parent to_label);
         proxy = (case lookup of
                    None \<Rightarrow> - 10
                  | Some child \<Rightarrow> log 10 (real_of_int (GetFrequency child) /
                                           real_of_int (GetFrequency (trieRoot sc))))
     in (from_state\<lparr>incomplete_word :=
                        incomplete_word from_state @ [GetCharacterFromLabel to_label],
                    incomplete_word_trie_node := lookup,
                    score := proxy + language_model_score from_state,
                    delta_score := proxy + language_model_score from_state
                                   - score from_state\<rparr>, []))"
  using assms
  by (simp add: KenLM_defs KenLMBeamScorer_CopyState_all Let_def split: option.splits)

lemma PrefixScorer_ExpandState_collapse:
  assumes "from_label = to_label \<or> IsBlankLabel to_label"
  shows "PrefixScorer_ExpandState root_node from_state from_label to_state to_label = from_state"
  using assms by (simp add: PrefixScorer_ExpandState_def PrefixScorer_CopyState_all)

subsection \<open>The score getters\<close>

text \<open>
  C8. For the language-model scorer, for every state and every real \<open>p\<close>,
  \<^verbatim>\<open>GetStateExpansionScore(state, p)\<close> is \<open>delta_score state + p\<close> and
  \<^verbatim>\<open>GetStateEndExpansionScore(state)\<close> is \<open>delta_score state\<close>. It
  holds of every state, reachable or not.
\<close>

theorem KenLM_score_additivity:
  "KenLMBeamScorer_GetStateExpansionScore state p = delta_score state + p \<and>
   KenLMBeamScorer_GetStateEndExpansionScore state = delta_score state"
  by (simp add: KenLMBeamScorer_GetStateExpansionScore_def
      KenLMBeamScorer_GetStateEndExpansionScore_def)

text \<open>
  C3. The claim: for both concrete scorers, \<^verbatim>\<open>GetStateExpansionScore(state,
  previousScore)\<close> is the scorer's incremental score added to \<open>previousScore\<close>.
  The code at the prefix scorer's root state (no penalty yet, \<open>prob = 0\<close>) and
  \<open>previousScore = - 3\<close>: the prefix scorer returns \<open>0\<close>, not \<open>0 + (- 3)\<close>,
  because it returns \<open>prob\<close> and never reads \<open>previous_score\<close>. The base class
  and the language-model scorer both return \<open>- 3\<close> at their root states.
\<close>

theorem PrefixScorer_expansion_score_drops_previous_score:
  "prob example_prefix_root_state = 0 \<and>
   PrefixScorer_GetStateExpansionScore example_prefix_root_state (- 3) = 0 \<and>
   PrefixScorer_GetStateExpansionScore example_prefix_root_state (- 3) \<noteq>
     prob example_prefix_root_state + (- 3) \<and>
   BaseBeamScorer_GetStateExpansionScore example_prefix_root_state (- 3) = - 3 \<and>
   KenLMBeamScorer_GetStateExpansionScore example_root_state (- 3) = - 3"
  by (simp add: run_defs PrefixScorer_GetStateExpansionScore_def
      BaseBeamScorer_GetStateExpansionScore_def KenLMBeamScorer_GetStateExpansionScore_def)

subsection \<open>Repeated and blank labels\<close>

text \<open>
  C5. If the new label repeats the previous label or is the blank label, then
  \<^verbatim>\<open>ExpandState\<close> of the language-model scorer gives the parent state with
  \<open>delta_score\<close> set to \<open>0\<close> and every other field as in the parent, and
  \<^verbatim>\<open>ExpandState\<close> of the prefix scorer, whose state has no \<open>delta_score\<close>,
  gives the parent state.
\<close>

theorem ExpandState_collapsing_rule:
  assumes "from_label = to_label \<or> IsBlankLabel to_label"
  shows "fst (KenLMBeamScorer_ExpandState sc S from_label S' to_label) =
           S\<lparr>delta_score := 0\<rparr> \<and>
         PrefixScorer_ExpandState root_node P from_label P' to_label = P"
  using assms
  by (simp add: KenLM_ExpandState_collapse PrefixScorer_ExpandState_collapse)

theorem ExpandState_collapsing_rule_witness:
  "fst (KenLMBeamScorer_ExpandState example_scorer example_h_state 7 blank_state 7) =
     example_h_state\<lparr>delta_score := 0\<rparr> \<and>
   fst (KenLMBeamScorer_ExpandState example_scorer example_h_state 7 blank_state 28) =
     example_h_state\<lparr>delta_score := 0\<rparr> \<and>
   PrefixScorer_ExpandState example_trie example_prefix_root_state 7 blank_prefix_state 7 =
     example_prefix_root_state \<and>
   PrefixScorer_ExpandState example_trie example_prefix_root_state 7 blank_prefix_state 28 =
     example_prefix_root_state"
proof -
  have repeated: "(7::int) = 7 \<or> IsBlankLabel 7"
    and blank: "(7::int) = 28 \<or> IsBlankLabel 28"
    by (simp_all add: IsBlankLabel_def)
  show ?thesis
    using ExpandState_collapsing_rule [OF repeated, where sc = example_scorer
            and S = example_h_state and S' = blank_state and root_node = example_trie
            and P = example_prefix_root_state and P' = blank_prefix_state]
          ExpandState_collapsing_rule [OF blank, where sc = example_scorer
            and S = example_h_state and S' = blank_state and root_node = example_trie
            and P = example_prefix_root_state and P' = blank_prefix_state]
    by simp
qed

text \<open>
  C9. If the previous label and the new label are both the word separator, the
  collapsing branch is taken in both scorers. The language-model scorer makes no call
  to the language model and gives the parent state with \<open>delta_score = 0\<close>: the
  incomplete word, the trie position and the model state are the parent's. The prefix
  scorer gives the parent state: its trie position is not reset to the root.
\<close>

theorem ExpandState_repeated_separator_collapses:
  assumes "IsSpaceLabel from_label" "IsSpaceLabel to_label"
  shows "KenLMBeamScorer_ExpandState sc S from_label S' to_label =
           (S\<lparr>delta_score := 0\<rparr>, []) \<and>
         incomplete_word (fst (KenLMBeamScorer_ExpandState sc S from_label S' to_label)) =
           incomplete_word S \<and>
         incomplete_word_trie_node
           (fst (KenLMBeamScorer_ExpandState sc S from_label S' to_label)) =
           incomplete_word_trie_node S \<and>
         model_state (fst (KenLMBeamScorer_ExpandState sc S from_label S' to_label)) =
           model_state S \<and>
         PrefixScorer_ExpandState root_node P from_label P' to_label = P"
proof -
  from assms have "from_label = to_label"
    by (simp add: IsSpaceLabel_def)
  then show ?thesis
    by (simp add: KenLM_ExpandState_collapse PrefixScorer_ExpandState_collapse)
qed

theorem ExpandState_repeated_separator_collapses_witness:
  "KenLMBeamScorer_ExpandState example_scorer
      (KenLMBeamScorer_ExpandPath example_scorer blank_state example_root_state (- 1) [27])
      27 blank_state 27 =
     ((KenLMBeamScorer_ExpandPath example_scorer blank_state example_root_state (- 1) [27])
        \<lparr>delta_score := 0\<rparr>, []) \<and>
   node (PrefixScorer_ExpandPath example_trie blank_prefix_state example_prefix_root_state
           (- 1) [7, 3]) = None \<and>
   PrefixScorer_ExpandState example_trie
      (PrefixScorer_ExpandPath example_trie blank_prefix_state example_prefix_root_state
         (- 1) [7, 3, 27])
      27 blank_prefix_state 27 =
     \<lparr>prob = - 1, node = Some example_trie\<rparr>"
proof -
  have separator: "IsSpaceLabel 27"
    by (simp add: IsSpaceLabel_def)
  have path: "PrefixScorer_ExpandPath example_trie blank_prefix_state
      example_prefix_root_state (- 1) [7, 3, 27] = \<lparr>prob = - 1, node = Some example_trie\<rparr>"
    and oov: "node (PrefixScorer_ExpandPath example_trie blank_prefix_state
      example_prefix_root_state (- 1) [7, 3]) = None"
    by (simp_all add: run_defs)
  show ?thesis
    using ExpandState_repeated_separator_collapses [OF separator separator,
            where sc = example_scorer and S' = blank_state and root_node = example_trie
            and P' = blank_prefix_state] path oov
    by simp
qed

subsection \<open>Letters: the unigram proxy\<close>

text \<open>
  C4. On an \<^verbatim>\<open>ExpandState\<close> call of the language-model scorer whose new label is
  not repeated, not blank and not the separator: if the parent has a trie position and
  the lookup of the label below it gives a child, the trie position becomes that child
  and the score is \<open>log 10 (child count / root count)\<close> plus the language-model
  score; if the parent has no trie position, or the lookup gives nothing, the trie
  position is empty and the score is the floor \<open>- 10\<close> plus the language-model
  score. The language-model score is the parent's, and \<open>delta_score\<close> is the new
  score minus the parent's score.
\<close>

theorem ExpandState_letter_unigram_proxy:
  assumes "from_label \<noteq> to_label" "\<not> IsBlankLabel to_label" "\<not> IsSpaceLabel to_label"
  shows "(\<forall>parent child.
            incomplete_word_trie_node from_state = Some parent \<and>
            GetChildAt parent to_label = Some child \<longrightarrow>
            incomplete_word_trie_node
              (fst (KenLMBeamScorer_ExpandState sc from_state from_label to_state to_label))
              = Some child \<and>
            score (fst (KenLMBeamScorer_ExpandState sc from_state from_label to_state to_label))
              = log 10 (real_of_int (GetFrequency child) /
                        real_of_int (GetFrequency (trieRoot sc)))
                + language_model_score from_state) \<and>
         (incomplete_word_trie_node from_state = None \<or>
          (\<exists>parent. incomplete_word_trie_node from_state = Some parent \<and>
                     GetChildAt parent to_label = None) \<longrightarrow>
            incomplete_word_trie_node
              (fst (KenLMBeamScorer_ExpandState sc from_state from_label to_state to_label))
              = None \<and>
            score (fst (KenLMBeamScorer_ExpandState sc from_state from_label to_state to_label))
              = - 10 + language_model_score from_state) \<and>
         language_model_score
           (fst (KenLMBeamScorer_ExpandState sc from_state from_label to_state to_label))
           = language_model_score from_state \<and>
         delta_score
           (fst (KenLMBeamScorer_ExpandState sc from_state from_label to_state to_label))
           = score (fst (KenLMBeamScorer_ExpandState sc from_state from_label to_state to_label))
             - score from_state"
  using assms by (auto simp add: KenLM_ExpandState_character Let_def)

text \<open>
  The labels 7, 7, 19 from the root: after the letter t the score is
  \<open>log 10 (3 / 1000)\<close>. The label 3 in place of 19 has no child below "h".
\<close>

theorem ExpandState_letter_unigram_proxy_witness:
  "score (fst (KenLMBeamScorer_ExpandState example_scorer
      (KenLMBeamScorer_ExpandPath example_scorer blank_state example_root_state (- 1) [7, 7])
      7 blank_state 19))
     = log 10 (3 / 1000) + 0 \<and>
   delta_score (fst (KenLMBeamScorer_ExpandState example_scorer
      (KenLMBeamScorer_ExpandPath example_scorer blank_state example_root_state (- 1) [7, 7])
      7 blank_state 19))
     = log 10 (3 / 1000) - log 10 (5 / 1000) \<and>
   incomplete_word_trie_node (fst (KenLMBeamScorer_ExpandState example_scorer
      (KenLMBeamScorer_ExpandPath example_scorer blank_state example_root_state (- 1) [7, 7])
      7 blank_state 3))
     = None \<and>
   score (fst (KenLMBeamScorer_ExpandState example_scorer
      (KenLMBeamScorer_ExpandPath example_scorer blank_state example_root_state (- 1) [7, 7])
      7 blank_state 3))
     = - 10 + 0"
proof -
  have t: "(7::int) \<noteq> 19" "\<not> IsBlankLabel 19" "\<not> IsSpaceLabel 19"
    and d: "(7::int) \<noteq> 3" "\<not> IsBlankLabel 3" "\<not> IsSpaceLabel 3"
    by (simp_all add: IsBlankLabel_def IsSpaceLabel_def)
  show ?thesis
    using ExpandState_letter_unigram_proxy [OF t, where sc = example_scorer
            and to_state = blank_state and from_state =
              "KenLMBeamScorer_ExpandPath example_scorer blank_state example_root_state (- 1) [7, 7]"]
          ExpandState_letter_unigram_proxy [OF d, where sc = example_scorer
            and to_state = blank_state and from_state =
              "KenLMBeamScorer_ExpandPath example_scorer blank_state example_root_state (- 1) [7, 7]"]
    by (simp add: run_defs)
qed

subsection \<open>The score and its increment\<close>

text \<open>
  C7. For the language-model scorer, after \<^verbatim>\<open>ExpandState\<close> the child's
  \<open>delta_score\<close> is the child's score minus the parent's score, and after
  \<^verbatim>\<open>ExpandStateEnd\<close> the state's \<open>delta_score\<close> is its score after the call
  minus its score before the call.
\<close>

theorem KenLM_delta_score_is_score_difference:
  "delta_score (fst (KenLMBeamScorer_ExpandState sc from_state from_label to_state to_label)) =
     score (fst (KenLMBeamScorer_ExpandState sc from_state from_label to_state to_label))
     - score from_state \<and>
   delta_score (fst (KenLMBeamScorer_ExpandStateEnd sc state)) =
     score (fst (KenLMBeamScorer_ExpandStateEnd sc state)) - score state"
  by (simp add: KenLM_defs KenLMBeamScorer_CopyState_all Let_def
      split: option.splits prod.splits)

subsection \<open>The end of the sequence\<close>

text \<open>
  C1. The claim: if the incomplete word is not empty when \<^verbatim>\<open>ExpandStateEnd\<close> is
  called, the final \<open>language_model_score\<close> is that word's contribution plus the
  end-of-sentence token's score. The code on the beam that holds the one letter h,
  whose language-model score is \<open>0\<close>: the model gives the word \<open>- 2\<close> and then the
  end-of-sentence token \<open>- 1\<close>, and the final \<open>language_model_score\<close> is \<open>- 1\<close>,
  not \<open>- 3\<close>.
\<close>

theorem ExpandStateEnd_word_score_not_added:
  "incomplete_word example_h_state \<noteq> [] \<and>
   language_model_score example_h_state = 0 \<and>
   fst (FullScore example_model (model_state example_h_state)
          (Index example_model (incomplete_word example_h_state))) = - 2 \<and>
   fst (FullScore example_model
          (snd (FullScore example_model (model_state example_h_state)
                  (Index example_model (incomplete_word example_h_state))))
          (EndSentence example_model)) = - 1 \<and>
   language_model_score
     (fst (KenLMBeamScorer_ExpandStateEnd example_scorer example_h_state)) = - 1 \<and>
   language_model_score
     (fst (KenLMBeamScorer_ExpandStateEnd example_scorer example_h_state)) \<noteq> (- 2) + (- 1)"
  by (simp add: run_defs)

text \<open>
  C1, as amended. \<^verbatim>\<open>ExpandStateEnd\<close> sets \<open>language_model_score\<close>, and
  \<open>score\<close> with it, to the end-of-sentence token's score alone; the value replaces
  the previous one and nothing is added to it. If the incomplete word is not empty, the
  model is first called on the word from the current model state, and the model state
  becomes that call's out state; the token is then scored from the new model state,
  which is the only way the word enters the final \<open>language_model_score\<close>. If the
  incomplete word is empty, the token is scored from the model state as it is. The
  calls to the model are the word's, if there is one, and then the token's.
\<close>

theorem ExpandStateEnd_scores_end_of_sentence_token:
  "language_model_score (fst (KenLMBeamScorer_ExpandStateEnd sc state)) =
     fst (FullScore (model sc)
            (model_state (fst (KenLMBeamScorer_ExpandStateEnd sc state)))
            (EndSentence (model sc))) \<and>
   score (fst (KenLMBeamScorer_ExpandStateEnd sc state)) =
     language_model_score (fst (KenLMBeamScorer_ExpandStateEnd sc state)) \<and>
   model_state (fst (KenLMBeamScorer_ExpandStateEnd sc state)) =
     (if incomplete_word state \<noteq> []
      then snd (FullScore (model sc) (model_state state)
                  (Index (model sc) (incomplete_word state)))
      else model_state state) \<and>
   snd (KenLMBeamScorer_ExpandStateEnd sc state) =
     (if incomplete_word state \<noteq> []
      then [(model_state state, Index (model sc) (incomplete_word state))]
      else []) @
     [(model_state (fst (KenLMBeamScorer_ExpandStateEnd sc state)), EndSentence (model sc))]"
  by (simp add: KenLM_defs Let_def split: prod.splits)

subsection \<open>The word separator\<close>

text \<open>
  C2. The claim: after an \<^verbatim>\<open>ExpandState\<close> call of the language-model scorer
  whose new label is the word separator, the incomplete word is empty and the trie
  position is the root. The code on the beam that holds the one letter h, expanded by
  the separator: the incomplete word is still "h" and the trie position is still the
  node of "h", not the root.
\<close>

theorem ExpandState_separator_keeps_incomplete_word:
  "IsSpaceLabel 27 \<and>
   incomplete_word
     (fst (KenLMBeamScorer_ExpandState example_scorer example_h_state 7 blank_state 27))
     = ''h'' \<and>
   incomplete_word_trie_node
     (fst (KenLMBeamScorer_ExpandState example_scorer example_h_state 7 blank_state 27))
     = Some (TrieNode 5 [(19, TrieNode 3 [])]) \<and>
   incomplete_word_trie_node
     (fst (KenLMBeamScorer_ExpandState example_scorer example_h_state 7 blank_state 27))
     \<noteq> Some (trieRoot example_scorer)"
  by (simp add: run_defs)

subsection \<open>Leaving the trie: the prefix scorer's penalty\<close>

lemma PrefixScorer_ExpandState_sticky:
  "node state = None \<Longrightarrow> \<not> IsSpaceLabel x \<Longrightarrow>
   PrefixScorer_ExpandState root_node state label fresh x = state"
  by (simp add: PrefixScorer_ExpandState_def PrefixScorer_CopyState_all)

lemma PrefixScorer_ExpandState_prob:
  "\<not> IsSpaceLabel x \<Longrightarrow>
   prob (PrefixScorer_ExpandState root_node state label fresh x) =
     prob state -
       (if node state \<noteq> None \<and>
           node (PrefixScorer_ExpandState root_node state label fresh x) = None
        then 1 else 0)"
  by (auto simp add: PrefixScorer_ExpandState_def PrefixScorer_CopyState_all Let_def
      split: option.splits)

lemma PrefixScorer_ExpandPath_sticky:
  "node state = None \<Longrightarrow> \<forall>x \<in> set xs. \<not> IsSpaceLabel x \<Longrightarrow>
   PrefixScorer_ExpandPath root_node fresh state label xs = state"
  by (induction xs arbitrary: label) (simp_all add: PrefixScorer_ExpandState_sticky)

lemma PrefixScorer_ExpandPath_prob:
  "\<forall>x \<in> set xs. \<not> IsSpaceLabel x \<Longrightarrow>
   prob (PrefixScorer_ExpandPath root_node fresh state label xs) =
     prob state -
       (if node state \<noteq> None \<and>
           node (PrefixScorer_ExpandPath root_node fresh state label xs) = None
        then 1 else 0)"
proof (induction xs arbitrary: state label)
  case Nil
  show ?case by auto
next
  case (Cons x xs)
  let ?child = "PrefixScorer_ExpandState root_node state label fresh x"
  from Cons.prems have x: "\<not> IsSpaceLabel x" and xs: "\<forall>y \<in> set xs. \<not> IsSpaceLabel y"
    by simp_all
  show ?case
  proof (cases "node ?child")
    case None
    then have "PrefixScorer_ExpandPath root_node fresh ?child x xs = ?child"
      using xs by (simp add: PrefixScorer_ExpandPath_sticky)
    then show ?thesis
      using None PrefixScorer_ExpandState_prob [OF x, of root_node state label fresh]
      by simp
  next
    case (Some c)
    then have in_trie: "node state \<noteq> None"
      using PrefixScorer_ExpandState_sticky [OF _ x, of state root_node label fresh]
      by force
    have "prob ?child = prob state"
      using Some PrefixScorer_ExpandState_prob [OF x, of root_node state label fresh]
      by simp
    then show ?thesis
      using Cons.IH [OF xs, of ?child x] Some in_trie by simp
  qed
qed

text \<open>
  C6. For the prefix scorer, along any chain of expansions within one word (no label
  of the chain is the separator), \<open>prob\<close> at the end is \<open>prob\<close> at the start,
  minus exactly \<open>1\<close> if the trie position was there at the start and is empty at
  the end, and minus nothing otherwise: the penalty is applied at most once. A chain
  that starts with an empty trie position leaves the state as it is. In one step: with
  an empty trie position, any label but the separator leaves the state unchanged; with
  a trie position, a letter (not repeated, not blank, not the separator) whose lookup
  gives nothing empties the position and subtracts \<open>1\<close> from \<open>prob\<close>, and a letter
  whose lookup gives a child moves to the child and leaves \<open>prob\<close> unchanged.
\<close>

theorem PrefixScorer_penalty_once_per_word:
  assumes "\<forall>x \<in> set xs. \<not> IsSpaceLabel x"
  shows "prob (PrefixScorer_ExpandPath root_node fresh state label xs) =
           prob state -
             (if node state \<noteq> None \<and>
                 node (PrefixScorer_ExpandPath root_node fresh state label xs) = None
              then 1 else 0) \<and>
         (node state = None \<longrightarrow>
            PrefixScorer_ExpandPath root_node fresh state label xs = state) \<and>
         (\<forall>x. node state = None \<and> \<not> IsSpaceLabel x \<longrightarrow>
            PrefixScorer_ExpandState root_node state label fresh x = state) \<and>
         (\<forall>x parent. label \<noteq> x \<and> \<not> IsBlankLabel x \<and> \<not> IsSpaceLabel x \<and>
            node state = Some parent \<longrightarrow>
            PrefixScorer_ExpandState root_node state label fresh x =
              (case GetChildAt parent x of
                 None \<Rightarrow> state\<lparr>node := None, prob := prob state - 1\<rparr>
               | Some child \<Rightarrow> state\<lparr>node := Some child\<rparr>))"
proof (intro conjI allI impI)
  show "prob (PrefixScorer_ExpandPath root_node fresh state label xs) =
           prob state -
             (if node state \<noteq> None \<and>
                 node (PrefixScorer_ExpandPath root_node fresh state label xs) = None
              then 1 else 0)"
    using assms by (rule PrefixScorer_ExpandPath_prob)
next
  assume "node state = None"
  then show "PrefixScorer_ExpandPath root_node fresh state label xs = state"
    using assms by (simp add: PrefixScorer_ExpandPath_sticky)
next
  fix x
  assume "node state = None \<and> \<not> IsSpaceLabel x"
  then show "PrefixScorer_ExpandState root_node state label fresh x = state"
    by (simp add: PrefixScorer_ExpandState_sticky)
next
  fix x parent
  assume "label \<noteq> x \<and> \<not> IsBlankLabel x \<and> \<not> IsSpaceLabel x \<and> node state = Some parent"
  then show "PrefixScorer_ExpandState root_node state label fresh x =
               (case GetChildAt parent x of
                  None \<Rightarrow> state\<lparr>node := None, prob := prob state - 1\<rparr>
                | Some child \<Rightarrow> state\<lparr>node := Some child\<rparr>)"
    by (simp add: PrefixScorer_ExpandState_def PrefixScorer_CopyState_all Let_def
        split: option.splits)
qed

text \<open>
  The labels h, d, e, blank, e, f from the root: "hd" is not in the trie, the penalty
  falls at d, and the four labels after it change nothing.
\<close>

theorem PrefixScorer_penalty_once_per_word_witness:
  "prob example_prefix_root_state = 0 \<and>
   prob (PrefixScorer_ExpandPath example_trie blank_prefix_state example_prefix_root_state
           (- 1) [7]) = 0 \<and>
   prob (PrefixScorer_ExpandPath example_trie blank_prefix_state example_prefix_root_state
           (- 1) [7, 3]) = - 1 \<and>
   prob (PrefixScorer_ExpandPath example_trie blank_prefix_state example_prefix_root_state
           (- 1) [7, 3, 4, 28, 4, 5]) = - 1 \<and>
   node (PrefixScorer_ExpandPath example_trie blank_prefix_state example_prefix_root_state
           (- 1) [7, 3, 4, 28, 4, 5]) = None"
proof -
  have word: "\<forall>x \<in> set [7, 3, 4, 28, 4, 5]. \<not> IsSpaceLabel x"
    by (simp add: IsSpaceLabel_def)
  have left: "node (PrefixScorer_ExpandPath example_trie blank_prefix_state
      example_prefix_root_state (- 1) [7, 3, 4, 28, 4, 5]) = None"
    by (simp add: run_defs)
  show ?thesis
    using PrefixScorer_penalty_once_per_word [OF word, where root_node = example_trie
            and fresh = blank_prefix_state and state = example_prefix_root_state
            and label = "- 1"] left
    by (simp add: run_defs)
qed

subsection \<open>Leaving the trie: the language-model scorer's floor\<close>

lemma KenLM_ExpandState_out_of_vocabulary:
  assumes "out_of_vocabulary state" "\<not> IsSpaceLabel y"
  shows "out_of_vocabulary (fst (KenLMBeamScorer_ExpandState sc state label fresh y)) \<and>
         score (fst (KenLMBeamScorer_ExpandState sc state label fresh y)) = score state \<and>
         language_model_score (fst (KenLMBeamScorer_ExpandState sc state label fresh y)) =
           language_model_score state"
proof (cases "label = y \<or> IsBlankLabel y")
  case True
  then show ?thesis
    using assms by (simp add: KenLM_ExpandState_collapse out_of_vocabulary_def)
next
  case False
  then show ?thesis
    using assms by (simp add: KenLM_ExpandState_character out_of_vocabulary_def Let_def)
qed

lemma KenLM_ExpandPath_out_of_vocabulary:
  "out_of_vocabulary state \<Longrightarrow> \<forall>y \<in> set ys. \<not> IsSpaceLabel y \<Longrightarrow>
   out_of_vocabulary (KenLMBeamScorer_ExpandPath sc fresh state label ys) \<and>
   score (KenLMBeamScorer_ExpandPath sc fresh state label ys) = score state \<and>
   language_model_score (KenLMBeamScorer_ExpandPath sc fresh state label ys) =
     language_model_score state"
proof (induction ys arbitrary: state label)
  case Nil
  then show ?case by simp
next
  case (Cons y ys)
  from Cons.prems have y: "\<not> IsSpaceLabel y" and ys: "\<forall>z \<in> set ys. \<not> IsSpaceLabel z"
    by simp_all
  note step = KenLM_ExpandState_out_of_vocabulary [OF Cons.prems(1) y, of sc label fresh]
  from step have "out_of_vocabulary (fst (KenLMBeamScorer_ExpandState sc state label fresh y))"
    by simp
  from Cons.IH [OF this ys, of y] step show ?case
    by simp
qed

text \<open>
  C10. For the language-model scorer, take a letter step (label \<open>x\<close>: not repeated,
  not blank, not the separator) that leaves the trie position empty, then any chain
  \<open>ys\<close> of further expansions within the same word (no separator), then one more
  letter step (label \<open>z\<close>). Before the last step the trie position is still empty
  and the score is still the one the first step gave. The last step sets the score to
  the floor \<open>- 10\<close> plus the language-model score, which is the score the state
  already had, so \<open>delta_score\<close> is \<open>0\<close>; the trie position stays empty.
\<close>

theorem ExpandState_floor_lowers_score_once:
  assumes "label \<noteq> x" "\<not> IsBlankLabel x" "\<not> IsSpaceLabel x"
    and "incomplete_word_trie_node
           (fst (KenLMBeamScorer_ExpandState sc state label fresh x)) = None"
    and "\<forall>y \<in> set ys. \<not> IsSpaceLabel y"
    and "last (x # ys) \<noteq> z" "\<not> IsBlankLabel z" "\<not> IsSpaceLabel z"
  shows "(let left = fst (KenLMBeamScorer_ExpandState sc state label fresh x);
              later = KenLMBeamScorer_ExpandPath sc fresh left x ys;
              next_state = fst (KenLMBeamScorer_ExpandState sc later (last (x # ys)) fresh z)
          in incomplete_word_trie_node later = None \<and>
             score later = score left \<and>
             score next_state = - 10 + language_model_score later \<and>
             score next_state = score later \<and>
             delta_score next_state = 0 \<and>
             incomplete_word_trie_node next_state = None)"
proof -
  let ?left = "fst (KenLMBeamScorer_ExpandState sc state label fresh x)"
  let ?later = "KenLMBeamScorer_ExpandPath sc fresh ?left x ys"
  have "out_of_vocabulary ?left"
    using assms(1-4) by (simp add: KenLM_ExpandState_character out_of_vocabulary_def Let_def)
  from KenLM_ExpandPath_out_of_vocabulary [OF this assms(5), of sc fresh x]
  have "out_of_vocabulary ?later" "score ?later = score ?left"
    by simp_all
  then show ?thesis
    using assms(6-8)
    by (simp add: KenLM_ExpandState_character out_of_vocabulary_def Let_def)
qed

text \<open>
  The labels d, d, blank, e, f from the root: no word of the trie starts with d. The
  first d sets the score to \<open>- 10\<close>; at f the score is \<open>- 10\<close> again and
  \<open>delta_score\<close> is \<open>0\<close>.
\<close>

theorem ExpandState_floor_lowers_score_once_witness:
  "incomplete_word_trie_node
     (fst (KenLMBeamScorer_ExpandState example_scorer example_root_state (- 1) blank_state 3))
     = None \<and>
   score (fst (KenLMBeamScorer_ExpandState example_scorer example_root_state (- 1) blank_state 3))
     = - 10 \<and>
   delta_score
     (fst (KenLMBeamScorer_ExpandState example_scorer example_root_state (- 1) blank_state 3))
     = - 10 \<and>
   score (fst (KenLMBeamScorer_ExpandState example_scorer
      (KenLMBeamScorer_ExpandPath example_scorer blank_state
         (fst (KenLMBeamScorer_ExpandState example_scorer example_root_state (- 1) blank_state 3))
         3 [3, 28, 4])
      4 blank_state 5)) = - 10 \<and>
   delta_score (fst (KenLMBeamScorer_ExpandState example_scorer
      (KenLMBeamScorer_ExpandPath example_scorer blank_state
         (fst (KenLMBeamScorer_ExpandState example_scorer example_root_state (- 1) blank_state 3))
         3 [3, 28, 4])
      4 blank_state 5)) = 0"
proof -
  have first: "(- 1::int) \<noteq> 3" "\<not> IsBlankLabel 3" "\<not> IsSpaceLabel 3"
    and word: "\<forall>y \<in> set [3, 28, 4]. \<not> IsSpaceLabel y"
    and last: "last (3 # [3, 28, 4]) \<noteq> (5::int)" "\<not> IsBlankLabel 5" "\<not> IsSpaceLabel 5"
    by (simp_all add: IsBlankLabel_def IsSpaceLabel_def)
  have left: "incomplete_word_trie_node
      (fst (KenLMBeamScorer_ExpandState example_scorer example_root_state (- 1) blank_state 3))
      = None"
    and floor: "score
      (fst (KenLMBeamScorer_ExpandState example_scorer example_root_state (- 1) blank_state 3))
      = - 10"
    and delta: "delta_score
      (fst (KenLMBeamScorer_ExpandState example_scorer example_root_state (- 1) blank_state 3))
      = - 10"
    by (simp_all add: run_defs)
  show ?thesis
    using ExpandState_floor_lowers_score_once [OF first left word last] left floor delta
    by (simp add: Let_def)
qed

end
